theory Spec2Isabelle
  imports Main
begin

section \<open>Python strings and values\<close>

text \<open>
  The bot is one Python file: a table of bindings in SQLite, a prober of game servers, a
  console client driven through a pipe, and the handler of the webhook that dispatches
  chat commands. Each function of the source is a function here, under its name. State
  is passed explicitly: a function that writes the table returns the new table, and the
  handler returns, with the table, the list of what it did outside (text written to the
  console client, posts to the gateway). An exception is a value (\<open>Inl\<close>), and what was
  written before it was raised stays written, since every store operation commits on its
  own. What the outside answers (the console client's output, the round trips to the
  game servers) is an argument. The log lines (\<open>print\<close>) are left out, and the gateway,
  the database file and the launch of the console client are taken to work.
\<close>

text \<open>
  A Python \<open>str\<close> is a sequence of Unicode code points, so it is modelled as a list of
  natural numbers. The program's messages are Chinese; their literals are written as the
  code points of the source's characters, the ASCII runs through \<open>asc\<close>.
\<close>

type_synonym ustr = "nat list"

definition asc :: "string \<Rightarrow> ustr" where
  "asc s = map of_char s"

text \<open>\<open>str.isascii()\<close>: every code point is below 128 (true of the empty string).\<close>

definition isascii :: "ustr \<Rightarrow> bool" where
  "isascii s = list_all (\<lambda>c. c < 128) s"

text \<open>
  \<open>str.isdigit()\<close>: the string is not empty and every character is a digit. Python's
  table of digits beyond ASCII is not part of the repository; it is the parameter
  \<open>udigit\<close>.
\<close>

definition isdigit :: "(nat \<Rightarrow> bool) \<Rightarrow> ustr \<Rightarrow> bool" where
  "isdigit udigit s = (s \<noteq> [] \<and> list_all (\<lambda>c. (48 \<le> c \<and> c \<le> 57) \<or> (128 \<le> c \<and> udigit c)) s)"

text \<open>\<open>s.split(" ")\<close>: cuts at every single space; the result is never empty.\<close>

fun split_sp :: "ustr \<Rightarrow> ustr list" where
  "split_sp [] = [[]]"
| "split_sp (c # cs) =
     (if c = 32 then [] # split_sp cs
      else (case split_sp cs of
              [] \<Rightarrow> [[c]]
            | w # ws \<Rightarrow> (c # w) # ws))"

text \<open>\<open>s.startswith(p)\<close> and \<open>p in s\<close> (substring test).\<close>

fun startswith :: "ustr \<Rightarrow> ustr \<Rightarrow> bool" where
  "startswith s [] = True"
| "startswith [] (p # ps) = False"
| "startswith (c # cs) (p # ps) = (c = p \<and> startswith cs ps)"

fun contains :: "ustr \<Rightarrow> ustr \<Rightarrow> bool" where
  "contains [] p = (p = [])"
| "contains (c # cs) p = (startswith (c # cs) p \<or> contains cs p)"

text \<open>\<open>str(n)\<close> for an integer: decimal digits, a minus sign for a negative number.\<close>

fun str_nat :: "nat \<Rightarrow> ustr" where
  "str_nat n = (if n < 10 then [48 + n] else str_nat (n div 10) @ [48 + n mod 10])"

declare str_nat.simps [simp del]

definition str_int :: "int \<Rightarrow> ustr" where
  "str_int i = (if i < 0 then 45 # str_nat (nat (- i)) else str_nat (nat i))"

text \<open>
  Exceptions: the class and the message (\<open>str(e)\<close>). \<open>TimeoutError\<close> and
  \<open>Gaierror\<close> (\<open>socket.gaierror\<close>) are the two classes the status prober catches;
  \<open>OSError\<close> stands for an \<open>OSError\<close> that is neither.
\<close>

datatype exn_class =
  ValueError | TypeError | IndexError | ServerConnectionError
  | TimeoutError | Gaierror | OSError

datatype exn = Exn exn_class ustr

fun exn_class_of :: "exn \<Rightarrow> exn_class" where
  "exn_class_of (Exn c m) = c"

fun exn_str :: "exn \<Rightarrow> ustr" where
  "exn_str (Exn c m) = m"

text \<open>
  The Python values the program passes around. \<open>PyFunction name\<close> is a reference to the
  function defined under that name (not a call of it). A float is carried by its
  \<open>str()\<close>: floating point arithmetic is outside the model.
\<close>

datatype pyval =
  PyNone | PyInt int | PyStr ustr | PyFloat ustr | PyFunction ustr | PyExc exn

text \<open>Truthiness, as \<open>if qq:\<close> and \<open>if not qq and not mc\<close> test it.\<close>

fun truthy :: "pyval \<Rightarrow> bool" where
  "truthy PyNone = False"
| "truthy (PyInt i) = (i \<noteq> 0)"
| "truthy (PyStr s) = (s \<noteq> [])"
| "truthy (PyFloat s) = True"
| "truthy (PyFunction f) = True"
| "truthy (PyExc e) = True"

text \<open>
  \<open>str(v)\<close>, as an f-string renders a value. The address CPython prints for a function
  object depends on the run; it is the parameter \<open>addr\<close>.
\<close>

fun py_str :: "ustr \<Rightarrow> pyval \<Rightarrow> ustr" where
  "py_str addr PyNone = asc ''None''"
| "py_str addr (PyInt i) = str_int i"
| "py_str addr (PyStr s) = s"
| "py_str addr (PyFloat s) = s"
| "py_str addr (PyFunction f) = asc ''<function '' @ f @ asc '' at 0x'' @ addr @ asc ''>''"
| "py_str addr (PyExc e) = exn_str e"

section \<open>The binding store\<close>

text \<open>
  The table \<open>bind\<close>: \<open>qq TEXT PRIMARY KEY NOT NULL\<close>, \<open>mc TEXT\<close> (\<open>NULL\<close> is
  \<open>None\<close>), \<open>is_admin\<close> and \<open>ban\<close>, both \<open>BOOLEAN NOT NULL DEFAULT FALSE\<close>. The
  table is the list of its rows; a database file without the table is the empty list
  (\<open>CREATE TABLE IF NOT EXISTS\<close>).
\<close>

record row =
  qq :: ustr
  mc :: "ustr option"
  is_admin :: bool
  ban :: bool

type_synonym table = "row list"

text \<open>
  A value bound to a \<open>?\<close> of a statement. Both columns have TEXT affinity, so an integer
  is stored and compared as its decimal text; \<open>None\<close> is \<open>NULL\<close>; sqlite3 refuses a
  function object with an error of class \<open>sqlite3.Error\<close>. Integers are taken to be in
  SQLite's 64-bit range, as the gateway's identities are.
\<close>

datatype sqlarg = Null | Text ustr | Unsupported

fun sql_arg :: "pyval \<Rightarrow> sqlarg" where
  "sql_arg PyNone = Null"
| "sql_arg (PyInt i) = Text (str_int i)"
| "sql_arg (PyStr s) = Text s"
| "sql_arg (PyFloat s) = Text s"
| "sql_arg (PyFunction f) = Unsupported"
| "sql_arg (PyExc e) = Unsupported"

text \<open>\<open>WHERE qq = ?\<close> and \<open>WHERE mc = ?\<close>: a comparison with \<open>NULL\<close> selects no row.\<close>

fun qq_is :: "sqlarg \<Rightarrow> row \<Rightarrow> bool" where
  "qq_is (Text k) r = (qq r = k)"
| "qq_is a r = False"

fun mc_is :: "sqlarg \<Rightarrow> row \<Rightarrow> bool" where
  "mc_is (Text m) r = (mc r = Some m)"
| "mc_is a r = False"

text \<open>
  \<open>INSERT OR REPLACE INTO bind (qq, is_admin) VALUES (?, TRUE)\<close>: a row with the same
  primary key is deleted, and the new row takes the defaults of the columns not named.
\<close>

definition insert_or_replace_admin :: "ustr \<Rightarrow> table \<Rightarrow> table" where
  "insert_or_replace_admin k t =
     filter (\<lambda>r. qq r \<noteq> k) t @ [\<lparr>qq = k, mc = None, is_admin = True, ban = False\<rparr>]"

text \<open>\<open>init_database(admin_list)\<close>: the loop over the configured administrators.\<close>

fun init_database :: "int list \<Rightarrow> table \<Rightarrow> table" where
  "init_database [] t = t"
| "init_database (a # admin_list) t =
     init_database admin_list (insert_or_replace_admin (str_int a) t)"

text \<open>
  \<open>INSERT INTO bind (qq, mc) VALUES (?, ?) ON CONFLICT(qq) DO UPDATE SET mc=excluded.mc\<close>.
\<close>

definition upsert_mc :: "ustr \<Rightarrow> ustr option \<Rightarrow> table \<Rightarrow> table" where
  "upsert_mc k m t =
     (if list_ex (\<lambda>r. qq r = k) t
      then map (\<lambda>r. if qq r = k then r\<lparr>mc := m\<rparr> else r) t
      else t @ [\<lparr>qq = k, mc = m, is_admin = False, ban = False\<rparr>])"

text \<open>
  The statement of \<open>add_bind\<close> and \<open>force_edit_database\<close> on its two parameters:
  \<open>None\<close> when sqlite3 raises (a \<open>NULL\<close> key violates \<open>NOT NULL\<close>, a function object
  cannot be bound).
\<close>

fun exec_upsert :: "sqlarg \<Rightarrow> sqlarg \<Rightarrow> table \<Rightarrow> table option" where
  "exec_upsert (Text k) (Text m) t = Some (upsert_mc k (Some m) t)"
| "exec_upsert (Text k) Null t = Some (upsert_mc k None t)"
| "exec_upsert a b t = None"

definition add_bind :: "pyval \<Rightarrow> pyval \<Rightarrow> table \<Rightarrow> bool \<times> table" where
  "add_bind q m t =
     (case exec_upsert (sql_arg q) (sql_arg m) t of
        Some t' \<Rightarrow> (True, t')
      | None \<Rightarrow> (False, t))"

definition force_edit_database :: "pyval \<Rightarrow> pyval \<Rightarrow> table \<Rightarrow> table" where
  "force_edit_database q m t =
     (case exec_upsert (sql_arg q) (sql_arg m) t of
        Some t' \<Rightarrow> t'
      | None \<Rightarrow> t)"

definition msg_need_key_delete :: ustr where
  "msg_need_key_delete =
     [33267, 23569, 38656, 35201, 25552, 20379] @ asc '' qq '' @ [25110] @ asc '' mc ''
     @ [36827, 34892, 21024, 38500]"

definition msg_need_key_query :: ustr where
  "msg_need_key_query =
     [33267, 23569, 38656, 35201, 25552, 20379] @ asc '' qq '' @ [25110] @ asc '' mc ''
     @ [36827, 34892, 26597, 35810]"

text \<open>
  \<open>remove_bind(qq, mc)\<close>: raises \<open>ValueError\<close> when both keys are falsy; deletes by
  \<open>qq\<close> when it is truthy, else by \<open>mc\<close>; returns \<open>rowcount > 0\<close>. An sqlite3 error is
  caught and gives \<open>False\<close>.
\<close>

definition remove_bind :: "pyval \<Rightarrow> pyval \<Rightarrow> table \<Rightarrow> exn + (bool \<times> table)" where
  "remove_bind q m t =
     (if \<not> truthy q \<and> \<not> truthy m then Inl (Exn ValueError msg_need_key_delete)
      else if truthy q then
        (if sql_arg q = Unsupported then Inr (False, t)
         else Inr (list_ex (qq_is (sql_arg q)) t, filter (\<lambda>r. \<not> qq_is (sql_arg q) r) t))
      else
        (if sql_arg m = Unsupported then Inr (False, t)
         else Inr (list_ex (mc_is (sql_arg m)) t, filter (\<lambda>r. \<not> mc_is (sql_arg m) r) t)))"

text \<open>
  \<open>ban_bind(qq, mc)\<close>: \<open>UPDATE bind SET ban = TRUE\<close> by \<open>qq\<close> if truthy and by \<open>mc\<close>
  if truthy; returns \<open>rowcount > 0\<close> of the last statement run (\<open>rowcount\<close> is \<open>-1\<close>
  when none ran). An sqlite3 error rolls both updates back and gives \<open>False\<close>.
\<close>

definition set_ban :: "(row \<Rightarrow> bool) \<Rightarrow> table \<Rightarrow> table" where
  "set_ban sel t = map (\<lambda>r. if sel r then r\<lparr>ban := True\<rparr> else r) t"

definition ban_bind :: "pyval \<Rightarrow> pyval \<Rightarrow> table \<Rightarrow> bool \<times> table" where
  "ban_bind q m t =
     (if truthy q \<and> sql_arg q = Unsupported then (False, t)
      else
        (let t1 = (if truthy q then set_ban (qq_is (sql_arg q)) t else t) in
         if truthy m then
           (if sql_arg m = Unsupported then (False, t)
            else (list_ex (mc_is (sql_arg m)) t1, set_ban (mc_is (sql_arg m)) t1))
         else (truthy q \<and> list_ex (qq_is (sql_arg q)) t, t1)))"

text \<open>
  \<open>query_count(qq, mc)\<close>: \<open>SELECT COUNT(*)\<close> by \<open>qq\<close> if truthy, else by \<open>mc\<close> if
  truthy, else \<open>ValueError\<close> (raised inside the \<open>try\<close>, but not an sqlite3 error, so
  it propagates). An sqlite3 error gives \<open>0\<close>.
\<close>

definition query_count :: "pyval \<Rightarrow> pyval \<Rightarrow> table \<Rightarrow> exn + nat" where
  "query_count q m t =
     (if truthy q then
        (if sql_arg q = Unsupported then Inr 0
         else Inr (length (filter (qq_is (sql_arg q)) t)))
      else if truthy m then
        (if sql_arg m = Unsupported then Inr 0
         else Inr (length (filter (mc_is (sql_arg m)) t)))
      else Inl (Exn ValueError msg_need_key_query))"

text \<open>
  \<open>query_username(qq)\<close>: \<open>SELECT mc FROM bind WHERE qq = ?\<close>, then
  \<open>cursor.fetchone()[0]\<close>. With no row \<open>fetchone()\<close> is \<open>None\<close> and the subscript
  raises \<open>TypeError\<close>, which \<open>except sqlite3.Error\<close> does not catch. An sqlite3 error
  gives \<open>0\<close>.
\<close>

definition msg_not_subscriptable :: ustr where
  "msg_not_subscriptable = [39] @ asc ''NoneType'' @ [39] @ asc '' object is not subscriptable''"

definition query_username :: "pyval \<Rightarrow> table \<Rightarrow> exn + pyval" where
  "query_username q t =
     (if sql_arg q = Unsupported then Inr (PyInt 0)
      else (case filter (qq_is (sql_arg q)) t of
              [] \<Rightarrow> Inl (Exn TypeError msg_not_subscriptable)
            | r # rs \<Rightarrow> Inr (case mc r of None \<Rightarrow> PyNone | Some u \<Rightarrow> PyStr u)))"

text \<open>
  \<open>query_ban(qq, mc)\<close>: \<open>ValueError\<close> when both keys are falsy; otherwise the
  \<open>ban\<close> column of the rows selected by \<open>qq\<close> (if truthy) \<open>UNION\<close> those selected by
  \<open>mc\<close> (if truthy); \<open>True\<close> when one of them is set. An sqlite3 error gives \<open>False\<close>.
\<close>

definition query_ban :: "pyval \<Rightarrow> pyval \<Rightarrow> table \<Rightarrow> exn + bool" where
  "query_ban q m t =
     (if \<not> truthy q \<and> \<not> truthy m then Inl (Exn ValueError msg_need_key_query)
      else if (truthy q \<and> sql_arg q = Unsupported) \<or> (truthy m \<and> sql_arg m = Unsupported)
        then Inr False
      else Inr (list_ex ban
                 ((if truthy q then filter (qq_is (sql_arg q)) t else [])
                  @ (if truthy m then filter (mc_is (sql_arg m)) t else []))))"

section \<open>The whitelist controller\<close>

text \<open>
  What a request meets outside the program: \<open>transcript\<close> is everything the console
  client prints until end of stream, should the request launch it (a request launches it
  at most once); \<open>probe a i\<close> is what the \<open>i\<close>-th status/query round trip to the
  address \<open>a\<close> does; \<open>fn_addr\<close>, \<open>udigit\<close> and \<open>str_repr\<close> are CPython's (the
  address it prints for \<open>query_username\<close>, its digits beyond ASCII, \<open>repr\<close> of a
  string).
\<close>

record status_reply =
  st_version_name :: ustr
  st_version_protocol :: int
  st_players_names :: "ustr list"
  st_players_online :: int
  st_players_max :: int
  st_description :: ustr
  st_latency :: ustr

datatype attempt = Answered status_reply | Failed exn

record env =
  transcript :: ustr
  probe :: "ustr \<Rightarrow> nat \<Rightarrow> attempt"
  fn_addr :: ustr
  udigit :: "nat \<Rightarrow> bool"
  str_repr :: "ustr \<Rightarrow> ustr"

text \<open>
  What a request does to the outside: the text written to the standard input of a
  console client it launched, and the posts to the gateway's \<open>/send_msg\<close> (group:
  \<open>group_id\<close> and \<open>message\<close>; private: \<open>user_id\<close> and \<open>message\<close>).
\<close>

datatype effect =
  ConsoleClient ustr
  | PostGroup pyval ustr
  | PostPrivate int ustr


definition marker_added :: ustr where
  "marker_added = [24050, 21152, 20837, 30333, 21517, 21333]"

definition marker_removed :: ustr where
  "marker_removed = [24050, 20174, 30333, 21517, 21333, 31227, 38500]"

definition msg_add_failed :: ustr where
  "msg_add_failed = [28155, 21152, 22833, 36133, 65292, 35831, 37325, 35797, 65281]"

definition msg_remove_failed :: ustr where
  "msg_remove_failed = [31227, 38500, 22833, 36133, 65292, 35831, 37325, 35797, 65281]"

text \<open>
  \<open>addWhitelist(username)\<close> and \<open>removeWhitelist(username)\<close>: write the command and
  \<open>/quit\<close> to the client, read its output to the end, and raise
  \<open>ServerConnectionError\<close> when the marker is not in it.
\<close>

definition addWhitelist :: "env \<Rightarrow> pyval \<Rightarrow> effect list \<times> (exn + unit)" where
  "addWhitelist e username =
     ([ConsoleClient (asc ''!!awr add '' @ py_str (fn_addr e) username @ [10] @ asc ''/quit'' @ [10])],
      if contains (transcript e) marker_added then Inr ()
      else Inl (Exn ServerConnectionError msg_add_failed))"

definition removeWhitelist :: "env \<Rightarrow> pyval \<Rightarrow> effect list \<times> (exn + unit)" where
  "removeWhitelist e username =
     ([ConsoleClient (asc ''!!awr remove '' @ py_str (fn_addr e) username @ [10] @ asc ''/quit'' @ [10])],
      if contains (transcript e) marker_removed then Inr ()
      else Inl (Exn ServerConnectionError msg_remove_failed))"

section \<open>The server status prober\<close>

text \<open>The dictionary \<open>getMinecraftServerInfo\<close> returns.\<close>

record info =
  version :: pyval
  protocol_version :: pyval
  players :: "ustr list"
  players_online :: pyval
  players_max :: pyval
  motd :: pyval
  latency :: pyval
  online :: bool
  error :: bool
  msg :: pyval

definition info_online :: "status_reply \<Rightarrow> info" where
  "info_online s =
     \<lparr>version = PyStr (st_version_name s),
      protocol_version = PyInt (st_version_protocol s),
      players = st_players_names s,
      players_online = PyInt (st_players_online s),
      players_max = PyInt (st_players_max s),
      motd = PyStr (st_description s),
      latency = PyFloat (st_latency s),
      online = True, error = False, msg = PyStr (asc ''success'')\<rparr>"

definition info_error :: "exn \<Rightarrow> info" where
  "info_error x =
     \<lparr>version = PyStr (asc ''N/A''), protocol_version = PyInt (- 1), players = [],
      players_online = PyInt (- 1), players_max = PyInt (- 1), motd = PyInt (- 1),
      latency = PyInt (- 1), online = False, error = True, msg = PyExc x\<rparr>"

definition info_offline :: info where
  "info_offline =
     \<lparr>version = PyStr (asc ''N/A''), protocol_version = PyInt (- 1), players = [],
      players_online = PyInt (- 1), players_max = PyInt (- 1), motd = PyInt (- 1),
      latency = PyInt (- 1), online = False, error = False, msg = PyStr (asc ''success'')\<rparr>"

text \<open>\<open>except (TimeoutError, socket.gaierror)\<close>.\<close>

definition caught :: "exn \<Rightarrow> bool" where
  "caught x = (exn_class_of x = TimeoutError \<or> exn_class_of x = Gaierror)"

text \<open>
  The loop \<open>for i in range(5)\<close>, on the values of \<open>i\<close> still to come and the number of
  round trips made so far. The \<open>try\<close> body returns when the round trip answers; the
  \<open>except\<close> clause returns too; any other exception leaves the function. So no path
  through the body reaches the next iteration, and the equation for a non-empty range
  has no recursive call. The result after the loop is reached only on an empty range.
\<close>

fun probe_loop :: "(nat \<Rightarrow> attempt) \<Rightarrow> nat list \<Rightarrow> nat \<Rightarrow> (exn + info) \<times> nat" where
  "probe_loop att [] n = (Inr info_offline, n)"
| "probe_loop att (i # is) n =
     (case att i of
        Answered s \<Rightarrow> (Inr (info_online s), Suc n)
      | Failed x \<Rightarrow> if caught x then (Inr (info_error x), Suc n) else (Inl x, Suc n))"

text \<open>
  \<open>getMinecraftServerInfo(server_address)\<close>: the result (a dictionary, or the exception
  that leaves the function) and the number of round trips made.
\<close>

definition getMinecraftServerInfo :: "(ustr \<Rightarrow> nat \<Rightarrow> attempt) \<Rightarrow> ustr \<Rightarrow> (exn + info) \<times> nat" where
  "getMinecraftServerInfo pr server_address = probe_loop (pr server_address) [0..<5] 0"

section \<open>The handlers\<close>

record server_entry =
  srv_name :: ustr
  srv_host :: ustr
  srv_port :: int

text \<open>The globals read from \<open>config.yml\<close>: \<open>admin\<close> and \<open>server\<close>.\<close>

record config =
  admin :: "int list"
  server :: "server_entry list"

definition cq_at :: "int \<Rightarrow> ustr" where
  "cq_at qid = asc ''[CQ:at,qq='' @ str_int qid @ asc ''] ''"

definition join_comma :: "ustr list \<Rightarrow> ustr" where
  "join_comma xs = concat (case xs of [] \<Rightarrow> [] | y # ys \<Rightarrow> y # map (\<lambda>z. asc '', '' @ z) ys)"

text \<open>
  \<open>str(players).replace("[", "").replace("]", "").replace("'", "")\<close> if the list is not
  empty, else the one-character text for "none".
\<close>

definition players_text :: "(ustr \<Rightarrow> ustr) \<Rightarrow> ustr list \<Rightarrow> ustr" where
  "players_text rp ps =
     (if ps = [] then [26080]
      else filter (\<lambda>c. c \<noteq> 39) (filter (\<lambda>c. c \<noteq> 93) (filter (\<lambda>c. c \<noteq> 91)
             (asc ''['' @ join_comma (map rp ps) @ asc '']''))))"

text \<open>The three shapes of \<open>singleMsg\<close> in \<open>statusHandler\<close>: online, unknown, offline.\<close>

definition msg_server_online :: "env \<Rightarrow> ustr \<Rightarrow> info \<Rightarrow> ustr" where
  "msg_server_online e nm st =
     [10] @ asc ''            '' @ [10, 26381, 21153, 22120, 21517, 31216, 65306] @ nm
     @ [10, 24310, 36831, 65306] @ py_str (fn_addr e) (latency st) @ asc '' ms''
     @ [10, 22312, 32447, 20154, 25968, 65306] @ py_str (fn_addr e) (players_online st)
     @ asc ''/'' @ py_str (fn_addr e) (players_max st)
     @ [10, 22312, 32447, 29609, 23478, 65306] @ players_text (str_repr e) (players st)
     @ [10, 24403, 21069, 29366, 24577, 65306, 22312, 32447]"

definition msg_server_unknown :: "env \<Rightarrow> ustr \<Rightarrow> info \<Rightarrow> ustr" where
  "msg_server_unknown e nm st =
     [10, 26381, 21153, 22120, 21517, 31216, 65306] @ nm @ asc ''            ''
     @ [10, 24403, 21069, 29366, 24577, 65306, 26410, 30693, 65288]
     @ py_str (fn_addr e) (msg st) @ [65289]"

definition msg_server_offline :: "ustr \<Rightarrow> ustr" where
  "msg_server_offline nm =
     [10] @ asc ''            '' @ [10, 26381, 21153, 22120, 21517, 31216, 65306] @ nm
     @ [10, 24403, 21069, 29366, 24577, 65306, 31163, 32447]"

definition singleMsg :: "env \<Rightarrow> ustr \<Rightarrow> info \<Rightarrow> ustr" where
  "singleMsg e nm st =
     (if online st then msg_server_online e nm st
      else if error st then msg_server_unknown e nm st
      else msg_server_offline nm)"

definition server_address :: "server_entry \<Rightarrow> ustr" where
  "server_address serv = srv_host serv @ asc '':'' @ str_int (srv_port serv)"

definition msg_status_header :: "int \<Rightarrow> ustr" where
  "msg_status_header qid =
     cq_at qid @ asc ''====== '' @ [26381, 21153, 22120, 29366, 24577, 19968, 35272]
     @ asc '' ======''"

text \<open>
  \<open>statusHandler(qid)\<close>: the loop over the configured servers, on the message built so
  far. An exception of a probe leaves the handler.
\<close>

fun status_loop :: "env \<Rightarrow> server_entry list \<Rightarrow> ustr \<Rightarrow> exn + ustr" where
  "status_loop e [] acc = Inr acc"
| "status_loop e (serv # rest) acc =
     (case fst (getMinecraftServerInfo (probe e) (server_address serv)) of
        Inl x \<Rightarrow> Inl x
      | Inr st \<Rightarrow> status_loop e rest (acc @ singleMsg e (srv_name serv) st))"

definition statusHandler :: "config \<Rightarrow> env \<Rightarrow> int \<Rightarrow> exn + ustr" where
  "statusHandler cfg e qid = status_loop e (server cfg) (msg_status_header qid)"

definition helpHandler :: "int \<Rightarrow> ustr" where
  "helpHandler qid =
     cq_at qid @ asc ''====== EMUnion Bot '' @ [24110, 21161, 20449, 24687] @ asc '' ======''
     @ [10, 9679] @ asc '' '' @ [20351, 29992] @ asc '' /status ''
     @ [26597, 30475, 26381, 21153, 22120, 24403, 21069, 29366, 24577, 10, 9679] @ asc '' ''
     @ [20351, 29992] @ asc '' /bind <name> ''
     @ [26469, 33258, 21161, 28155, 21152, 30333, 21517, 21333, 10, 9679] @ asc '' ''
     @ [20351, 29992] @ asc '' /unbind '' @ [26469, 35299, 38500] @ asc ''QQ''
     @ [19982, 30333, 21517, 21333, 30340, 32465, 23450]"

definition msg_bind_usage :: "int \<Rightarrow> ustr" where
  "msg_bind_usage qid =
     cq_at qid @ [32465, 23450, 21629, 20196, 27491, 30830, 29992, 27861, 65306]
     @ asc ''/bind <name>''"

definition msg_bad_name :: "int \<Rightarrow> ustr \<Rightarrow> ustr" where
  "msg_bad_name qid nm =
     cq_at qid @ [35831, 36755, 20837, 27491, 30830, 30340, 28216, 25103, 21517, 31216, 65281]
     @ nm @ asc '' '' @ [19981, 26159, 21512, 27861, 30340, 28216, 25103, 21517, 65281]"

definition msg_bind_connection_error :: "int \<Rightarrow> ustr" where
  "msg_bind_connection_error qid =
     cq_at qid @ [28155, 21152, 22833, 36133, 65292, 26080, 27861, 36830, 25509, 21040,
                  26381, 21153, 22120, 65292, 35831, 37325, 35797, 65281]"

definition msg_bind_done :: "int \<Rightarrow> ustr \<Rightarrow> ustr" where
  "msg_bind_done qid nm =
     cq_at qid @ [24050, 20026, 29609, 23478] @ asc '' '' @ nm @ asc '' ''
     @ [28155, 21152, 30333, 21517, 21333, 65281]"

text \<open>
  \<open>bindHandler(msg, qid)\<close>. In the \<open>except ServerConnectionError\<close> clause the
  connection-error text is an expression statement: it is built and dropped, and control
  falls to the \<open>return\<close> after the \<open>try\<close>.
\<close>

definition bindHandler :: "env \<Rightarrow> ustr \<Rightarrow> int \<Rightarrow> table \<Rightarrow> table \<times> effect list \<times> ustr" where
  "bindHandler e raw qid t =
     (case split_sp raw of
        [c0, c1] \<Rightarrow>
          if \<not> isascii c1 then (t, [], msg_bad_name qid c1)
          else (case addWhitelist e (PyStr c1) of
                  (effs, Inl x) \<Rightarrow> (t, effs, msg_bind_done qid c1)
                | (effs, Inr u) \<Rightarrow>
                    (snd (add_bind (PyInt qid) (PyStr c1) t), effs, msg_bind_done qid c1))
      | _ \<Rightarrow> (t, [], msg_bind_usage qid))"

section \<open>The command dispatcher\<close>

text \<open>
  The JSON body of an event. The sender's \<open>user_id\<close> is an integer, as the gateway
  delivers it; \<open>group_id\<close> is \<open>PyNone\<close> when the body has none.
\<close>

record event =
  message_type :: ustr
  raw_message :: ustr
  user_id :: int
  group_id :: pyval

definition msg_status_failed :: "int \<Rightarrow> exn \<Rightarrow> ustr" where
  "msg_status_failed qid x =
     cq_at qid @ [26080, 27861, 33719, 21462, 26381, 21153, 22120, 20449, 24687, 65306]
     @ exn_str x"

definition msg_qq_banned :: "int \<Rightarrow> ustr" where
  "msg_qq_banned qid =
     cq_at qid @ [20320, 30340] @ asc ''QQ''
     @ [26080, 27861, 32465, 23450, 36134, 25143, 65292, 35831, 32852, 31995, 31649, 29702,
        21592, 65281]"

definition msg_mc_banned :: "int \<Rightarrow> ustr" where
  "msg_mc_banned qid =
     cq_at qid @ [27492, 29992, 25143, 21517, 26080, 27861, 32465, 23450, 65292, 35831, 32852,
                  31995, 31649, 29702, 21592, 65281]"

definition msg_qq_bound :: "int \<Rightarrow> ustr" where
  "msg_qq_bound qid =
     cq_at qid @ [20320, 24050, 32463, 25317, 26377, 32465, 23450, 30340, 28216, 25103]
     @ asc ''ID''
     @ [20102, 65281, 26412, 26381, 21153, 22120, 19968, 20154, 19968, 21495, 65292, 22914,
        26377, 20854, 20182, 38656, 35201, 35831, 32852, 31995, 31649, 29702, 21592, 65281]"

definition msg_mc_bound :: "int \<Rightarrow> ustr \<Rightarrow> ustr" where
  "msg_mc_bound qid nm =
     cq_at qid @ [27492, 29992, 25143, 21517] @ asc '' '' @ nm @ asc '' ''
     @ [24050, 32463, 34987, 32465, 23450, 65281, 35831, 32852, 31995, 31649, 29702, 21592,
        65281]"

definition msg_unbound :: "int \<Rightarrow> ustr \<Rightarrow> ustr" where
  "msg_unbound qid username =
     cq_at qid @ [24050, 32463, 20026, 20320, 35299, 38500] @ asc '' '' @ username @ asc '' ''
     @ [30340, 32465, 23450, 65281]"

definition msg_unbind_failed :: "int \<Rightarrow> ustr" where
  "msg_unbind_failed qid =
     cq_at qid @ [35299, 38500, 32465, 23450, 22833, 36133, 65281, 35831, 32852, 31995, 31649,
                  29702, 21592, 65281]"

definition msg_not_admin :: "int \<Rightarrow> ustr" where
  "msg_not_admin qid =
     cq_at qid @ [20320, 19981, 22312] @ asc ''bot''
     @ [31649, 29702, 21592, 21015, 34920, 20869, 65281]"

definition msg_admin_help :: "int \<Rightarrow> ustr" where
  "msg_admin_help qid =
     cq_at qid @ asc ''====== '' @ [31649, 29702, 21592, 21629, 20196, 21015, 34920]
     @ asc '' ======'' @ [10, 9679] @ asc '' '' @ [20351, 29992]
     @ asc ''/admin bind <QQ> <name> ''
     @ [26469, 20026, 29609, 23478, 24378, 21046, 32465, 23450, 10, 9679] @ asc '' ''
     @ [20351, 29992] @ asc ''/admin unbind <name> ''
     @ [26469, 20026, 29609, 23478, 24378, 21046, 25509, 35302, 32465, 23450, 10, 9679]
     @ asc '' '' @ [20351, 29992] @ asc ''/admin ban <name> ''
     @ [26469, 23553, 31105, 19968, 21517, 29609, 23478]"

definition msg_admin_usage :: "int \<Rightarrow> ustr \<Rightarrow> ustr" where
  "msg_admin_usage qid form =
     cq_at qid @ [31649, 29702, 21592, 21629, 20196] @ form
     @ [65292, 35831, 27491, 30830, 20351, 29992, 65281]"

definition msg_admin_bound :: "int \<Rightarrow> ustr \<Rightarrow> ustr \<Rightarrow> ustr" where
  "msg_admin_bound qid c2 c3 =
     cq_at qid @ [24050, 32463, 20026] @ asc '' '' @ c2 @ asc '' ''
     @ [28155, 21152, 20102, 29992, 25143, 21517] @ asc '' '' @ c3 @ asc '' ''
     @ [30340, 32465, 23450, 65281]"

definition index_error :: exn where
  "index_error = Exn IndexError (asc ''list index out of range'')"

text \<open>
  The branch of \<open>mainHander\<close> for a message that starts with \<open>/bind\<close>: the reply, or
  the exception that leaves the handler. When the message does not have two tokens, the
  usage text is an expression statement (built and dropped), so \<open>msg\<close> is still the raw
  message. The checks run in the source's order.
\<close>

definition bind_branch :: "env \<Rightarrow> event \<Rightarrow> table \<Rightarrow> table \<times> effect list \<times> (exn + ustr)" where
  "bind_branch e ev t =
     (case split_sp (raw_message ev) of
        [c0, c1] \<Rightarrow>
          (case query_ban (PyInt (user_id ev)) PyNone t of
             Inl x \<Rightarrow> (t, [], Inl x)
           | Inr b1 \<Rightarrow>
               if b1 then (t, [], Inr (msg_qq_banned (user_id ev)))
               else (case query_ban PyNone (PyStr c1) t of
                  Inl x \<Rightarrow> (t, [], Inl x)
                | Inr b2 \<Rightarrow>
                    if b2 then (t, [], Inr (msg_mc_banned (user_id ev)))
                    else (case query_count (PyInt (user_id ev)) PyNone t of
                       Inl x \<Rightarrow> (t, [], Inl x)
                     | Inr n1 \<Rightarrow>
                         if n1 \<noteq> 0 then (t, [], Inr (msg_qq_bound (user_id ev)))
                         else (case query_count PyNone (PyStr c1) t of
                            Inl x \<Rightarrow> (t, [], Inl x)
                          | Inr n2 \<Rightarrow>
                              if n2 \<noteq> 0 then (t, [], Inr (msg_mc_bound (user_id ev) c1))
                              else (case bindHandler e (raw_message ev) (user_id ev) t of
                                      (t', effs, reply) \<Rightarrow> (t', effs, Inr reply))))))
      | _ \<Rightarrow> (t, [], Inr (raw_message ev)))"

text \<open>
  The branch for \<open>/unbind\<close>. \<open>username = query_username\<close> binds the function, not a
  result of calling it; the sender's row is already deleted when the name is needed.
\<close>

definition unbind_branch :: "env \<Rightarrow> event \<Rightarrow> table \<Rightarrow> table \<times> effect list \<times> (exn + ustr)" where
  "unbind_branch e ev t =
     (case remove_bind (PyInt (user_id ev)) PyNone t of
        Inl x \<Rightarrow> (t, [], Inl x)
      | Inr (removed, t1) \<Rightarrow>
          if removed then
            (let username = PyFunction (asc ''query_username'') in
             case removeWhitelist e username of
               (effs, Inl x) \<Rightarrow> (t1, effs, Inl x)
             | (effs, Inr u) \<Rightarrow>
                 (case remove_bind PyNone username t1 of
                    Inl x \<Rightarrow> (t1, effs, Inl x)
                  | Inr (removed2, t2) \<Rightarrow>
                      (t2, effs, Inr (msg_unbound (user_id ev) (py_str (fn_addr e) username)))))
          else (t1, [], Inr (msg_unbind_failed (user_id ev))))"

text \<open>
  The branch for a message that starts with \<open>/admin\<close>. \<open>commands\<close> is matched by its
  length, which is what the source's tests on \<open>len(commands)\<close> and its subscripts
  amount to. After a successful \<open>/admin unbind\<close> or \<open>/admin ban\<close> the reply is built
  from \<open>commands[3]\<close>, which a list of three tokens does not have: \<open>IndexError\<close>.
  A second token that is none of the three commands leaves \<open>msg\<close> the raw message.
\<close>

definition admin_branch ::
  "config \<Rightarrow> env \<Rightarrow> event \<Rightarrow> table \<Rightarrow> table \<times> effect list \<times> (exn + ustr)" where
  "admin_branch cfg e ev t =
     (if user_id ev \<notin> set (admin cfg) then (t, [], Inr (msg_not_admin (user_id ev)))
      else (case split_sp (raw_message ev) of
         [] \<Rightarrow> (t, [], Inl index_error)
       | [c0] \<Rightarrow> (t, [], Inr (msg_admin_help (user_id ev)))
       | c0 # c1 # args \<Rightarrow>
           if c1 = asc ''bind'' then
             (case args of
                [c2, c3] \<Rightarrow>
                  if isdigit (udigit e) c2 \<and> isascii c3 then
                    (case addWhitelist e (PyStr c3) of
                       (effs, Inl x) \<Rightarrow> (t, effs, Inl x)
                     | (effs, Inr u) \<Rightarrow>
                         (force_edit_database (PyStr c2) (PyStr c3) t, effs,
                          Inr (msg_admin_bound (user_id ev) c2 c3)))
                  else (t, [], Inr (msg_admin_usage (user_id ev) (asc ''/admin bind <QQ> <name>'')))
              | _ \<Rightarrow> (t, [], Inr (msg_admin_usage (user_id ev) (asc ''/admin bind <QQ> <name>''))))
           else if c1 = asc ''unbind'' then
             (case args of
                [c2] \<Rightarrow>
                  if isascii c2 then
                    (case removeWhitelist e (PyStr c2) of
                       (effs, Inl x) \<Rightarrow> (t, effs, Inl x)
                     | (effs, Inr u) \<Rightarrow>
                         (case remove_bind PyNone (PyStr c2) t of
                            Inl x \<Rightarrow> (t, effs, Inl x)
                          | Inr (removed, t') \<Rightarrow> (t', effs, Inl index_error)))
                  else (t, [], Inr (msg_admin_usage (user_id ev) (asc ''/admin unbind <name>'')))
              | _ \<Rightarrow> (t, [], Inr (msg_admin_usage (user_id ev) (asc ''/admin unbind <name>''))))
           else if c1 = asc ''ban'' then
             (case args of
                [c2] \<Rightarrow>
                  if isascii c2 then
                    (case removeWhitelist e (PyStr c2) of
                       (effs, Inl x) \<Rightarrow> (t, effs, Inl x)
                     | (effs, Inr u) \<Rightarrow>
                         (snd (ban_bind PyNone (PyStr c2) t), effs, Inl index_error))
                  else (t, [], Inr (msg_admin_usage (user_id ev) (asc ''/admin ban <name>'')))
              | _ \<Rightarrow> (t, [], Inr (msg_admin_usage (user_id ev) (asc ''/admin ban <name>''))))
           else (t, [], Inr (raw_message ev))))"

text \<open>
  The reply is posted to the gateway when the message type is \<open>group\<close> or
  \<open>private\<close>; any other type posts nothing.
\<close>

definition send_msg :: "event \<Rightarrow> ustr \<Rightarrow> effect list" where
  "send_msg ev reply =
     (if message_type ev = asc ''group'' then [PostGroup (group_id ev) reply]
      else if message_type ev = asc ''private'' then [PostPrivate (user_id ev) reply]
      else [])"

text \<open>
  The chain of \<open>if\<close>/\<open>elif\<close> of \<open>mainHander\<close>: the store after it, what it did
  outside, and either the exception that leaves the handler or the reply to send
  (\<open>None\<close> when \<open>enable\<close> is false). Around \<open>statusHandler\<close> every exception is caught.
\<close>

definition dispatch ::
  "config \<Rightarrow> env \<Rightarrow> event \<Rightarrow> table \<Rightarrow> table \<times> effect list \<times> (exn + ustr option)" where
  "dispatch cfg e ev t =
     (if raw_message ev = asc ''/status'' then
        (t, [], Inr (Some (case statusHandler cfg e (user_id ev) of
                             Inr reply \<Rightarrow> reply
                           | Inl x \<Rightarrow> msg_status_failed (user_id ev) x)))
      else if raw_message ev = asc ''/help'' then (t, [], Inr (Some (helpHandler (user_id ev))))
      else if startswith (raw_message ev) (asc ''/bind'') then
        (case bind_branch e ev t of (t', effs, r) \<Rightarrow> (t', effs, map_sum id Some r))
      else if raw_message ev = asc ''/unbind'' then
        (case unbind_branch e ev t of (t', effs, r) \<Rightarrow> (t', effs, map_sum id Some r))
      else if startswith (raw_message ev) (asc ''/admin'') then
        (case admin_branch cfg e ev t of (t', effs, r) \<Rightarrow> (t', effs, map_sum id Some r))
      else (t, [], Inr None))"

text \<open>
  \<open>mainHander\<close>: the store after the request, what the request did outside, and the
  HTTP response body, or the exception that leaves the handler (the framework then
  answers with an error page, not with the body).
\<close>

definition mainHander ::
  "config \<Rightarrow> env \<Rightarrow> event \<Rightarrow> table \<Rightarrow> table \<times> effect list \<times> (exn + ustr)" where
  "mainHander cfg e ev t =
     (case dispatch cfg e ev t of
        (t', effs, Inl x) \<Rightarrow> (t', effs, Inl x)
      | (t', effs, Inr None) \<Rightarrow> (t', effs, Inr (asc ''success''))
      | (t', effs, Inr (Some reply)) \<Rightarrow> (t', effs @ send_msg ev reply, Inr (asc ''success'')))"

text \<open>A sequence of requests, each with its environment, from a store.\<close>

fun run :: "config \<Rightarrow> (env \<times> event) list \<Rightarrow> table \<Rightarrow> table" where
  "run cfg [] t = t"
| "run cfg ((e, ev) # rest) t = run cfg rest (fst (mainHander cfg e ev t))"

section \<open>Reports and example inputs\<close>

text \<open>
  What \<open>statusHandler\<close> appends to its message for one server: the body of its loop,
  used to state what the report of a list of servers holds.
\<close>

definition server_report :: "env \<Rightarrow> server_entry \<Rightarrow> exn + ustr" where
  "server_report e serv =
     (case fst (getMinecraftServerInfo (probe e) (server_address serv)) of
        Inl x \<Rightarrow> Inl x
      | Inr st \<Rightarrow> Inr (singleMsg e (srv_name serv) st))"

text \<open>
  Concrete inputs for the evaluations below. In \<open>example_env\<close> the address
  \<open>10.0.0.2:25565\<close> times out, \<open>10.0.0.3:25565\<close> fails with the plain
  \<open>OSError\<close> of an unreachable network, and every other address answers; the console
  client prints \<open>out\<close>.
\<close>

definition example_reply :: status_reply where
  "example_reply =
     \<lparr>st_version_name = asc ''1.20.4'', st_version_protocol = 765,
      st_players_names = [asc ''Steve'', asc ''Alex''], st_players_online = 2,
      st_players_max = 20, st_description = asc ''EMUnion'', st_latency = asc ''12.5''\<rparr>"

definition example_env :: "ustr \<Rightarrow> env" where
  "example_env out =
     \<lparr>transcript = out,
      probe = (\<lambda>a i.
        if a = asc ''10.0.0.2:25565'' then Failed (Exn TimeoutError (asc ''timed out''))
        else if a = asc ''10.0.0.3:25565''
          then Failed (Exn OSError (asc ''[Errno 101] Network is unreachable''))
        else Answered example_reply),
      fn_addr = asc ''7f3a5c0d1e50'',
      udigit = (\<lambda>c. False),
      str_repr = (\<lambda>s. [39] @ s @ [39])\<rparr>"

definition example_event :: "ustr \<Rightarrow> int \<Rightarrow> event" where
  "example_event raw qid =
     \<lparr>message_type = asc ''group'', raw_message = raw, user_id = qid, group_id = PyInt 5\<rparr>"

definition example_server :: "ustr \<Rightarrow> ustr \<Rightarrow> server_entry" where
  "example_server nm h = \<lparr>srv_name = nm, srv_host = h, srv_port = 25565\<rparr>"

definition example_config :: "server_entry list \<Rightarrow> config" where
  "example_config svs = \<lparr>admin = [1], server = svs\<rparr>"

section \<open>Facts about the store\<close>

lemma insert_or_replace_admin_same:
  "filter (\<lambda>r. qq r = k) (insert_or_replace_admin k t)
     = [\<lparr>qq = k, mc = None, is_admin = True, ban = False\<rparr>]"
  by (simp add: insert_or_replace_admin_def)

lemma insert_or_replace_admin_other:
  "k' \<noteq> k \<Longrightarrow>
   filter (\<lambda>r. qq r = k) (insert_or_replace_admin k' t) = filter (\<lambda>r. qq r = k) t"
  by (auto simp add: insert_or_replace_admin_def intro: filter_cong)

lemma init_database_keeps_admin_row:
  "filter (\<lambda>r. qq r = k) t = [\<lparr>qq = k, mc = None, is_admin = True, ban = False\<rparr>] \<Longrightarrow>
   filter (\<lambda>r. qq r = k) (init_database admin_list t)
     = [\<lparr>qq = k, mc = None, is_admin = True, ban = False\<rparr>]"
proof (induction admin_list arbitrary: t)
  case Nil
  then show ?case by simp
next
  case (Cons a admin_list)
  have "filter (\<lambda>r. qq r = k) (insert_or_replace_admin (str_int a) t)
          = [\<lparr>qq = k, mc = None, is_admin = True, ban = False\<rparr>]"
  proof (cases "str_int a = k")
    case True
    then show ?thesis using insert_or_replace_admin_same [of k t] by simp
  next
    case False
    then show ?thesis using Cons.prems by (simp add: insert_or_replace_admin_other)
  qed
  then show ?case using Cons.IH by simp
qed

lemma init_database_admin_row:
  "a \<in> set admin_list \<Longrightarrow>
   filter (\<lambda>r. qq r = str_int a) (init_database admin_list t)
     = [\<lparr>qq = str_int a, mc = None, is_admin = True, ban = False\<rparr>]"
proof (induction admin_list arbitrary: t)
  case Nil
  then show ?case by simp
next
  case (Cons b admin_list)
  show ?case
  proof (cases "a = b")
    case True
    then show ?thesis
      by (simp add: init_database_keeps_admin_row insert_or_replace_admin_same)
  next
    case False
    then show ?thesis using Cons by simp
  qed
qed


section \<open>Facts about the dispatcher\<close>

lemma startswith_bind_not_other:
  "startswith s (asc ''/bind'') \<Longrightarrow> s \<noteq> asc ''/status'' \<and> s \<noteq> asc ''/help''"
  by (auto simp add: asc_def)

lemma mainHander_bind_reply:
  assumes "startswith (raw_message ev) (asc ''/bind'')"
    and "bind_branch e ev t = (t', effs, Inr reply)"
  shows "mainHander cfg e ev t = (t', effs @ send_msg ev reply, Inr (asc ''success''))"
  using assms startswith_bind_not_other [of "raw_message ev"]
  by (simp add: mainHander_def dispatch_def)

lemma mainHander_bind_raise:
  assumes "startswith (raw_message ev) (asc ''/bind'')"
    and "bind_branch e ev t = (t', effs, Inl x)"
  shows "mainHander cfg e ev t = (t', effs, Inl x)"
  using assms startswith_bind_not_other [of "raw_message ev"]
  by (simp add: mainHander_def dispatch_def)

lemma query_ban_by_name:
  assumes "nm \<noteq> []" and "list_ex (\<lambda>r. mc r = Some nm \<and> ban r) t"
  shows "query_ban PyNone (PyStr nm) t = Inr True"
  using assms by (auto simp add: query_ban_def list_ex_iff)

lemma query_ban_by_name_empty:
  "query_ban PyNone (PyStr []) t = Inl (Exn ValueError msg_need_key_query)"
  by (simp add: query_ban_def)

lemma query_ban_by_id:
  "qid \<noteq> 0 \<Longrightarrow> query_ban (PyInt qid) PyNone t
     = Inr (list_ex (\<lambda>r. qq r = str_int qid \<and> ban r) t)"
  by (auto simp add: query_ban_def list_ex_iff)

lemma query_ban_by_id_zero:
  "query_ban (PyInt 0) PyNone t = Inl (Exn ValueError msg_need_key_query)"
  by (simp add: query_ban_def)









section \<open>Facts about the prober and the status report\<close>

lemma range5: "[0..<5] = [0, 1, 2, 3, 4]"
  by (simp add: upt_rec)

lemma prober_result:
  "getMinecraftServerInfo pr a
     = (case pr a 0 of
          Answered s \<Rightarrow> (Inr (info_online s), 1)
        | Failed x \<Rightarrow> if caught x then (Inr (info_error x), 1) else (Inl x, 1))"
  by (simp add: getMinecraftServerInfo_def range5 split: attempt.splits)

lemma status_loop_append:
  "status_loop e pre acc = Inr acc' \<Longrightarrow> status_loop e (pre @ post) acc = status_loop e post acc'"
  by (induction pre arbitrary: acc) (auto split: sum.splits)

lemma status_loop_reports:
  "list_all (\<lambda>sv. \<not> isl (server_report e sv)) svs \<Longrightarrow>
   status_loop e svs acc = Inr (acc @ concat (map (\<lambda>sv. projr (server_report e sv)) svs))"
proof (induction svs arbitrary: acc)
  case Nil
  then show ?case by simp
next
  case (Cons sv svs)
  then show ?case
    by (cases "fst (getMinecraftServerInfo (probe e) (server_address sv))")
       (simp_all add: server_report_def)
qed

section \<open>Unfolding for concrete inputs\<close>

lemmas ex_defs = example_env_def example_event_def example_config_def example_server_def
  example_reply_def asc_def str_int_def str_nat.simps

lemmas handler_defs = mainHander_def dispatch_def bind_branch_def unbind_branch_def
  admin_branch_def bindHandler_def send_msg_def query_ban_def query_count_def remove_bind_def
  ban_bind_def set_ban_def add_bind_def upsert_mc_def addWhitelist_def removeWhitelist_def
  marker_added_def marker_removed_def isascii_def index_error_def insert_or_replace_admin_def

section \<open>The claims\<close>

subsection \<open>C1: what unbind does\<close>

text \<open>
  Claim C1 (the code departs from it). An \<open>/unbind\<close> request of a sender bound to
  \<open>Steve\<close>: the sender's row is deleted first, then the whitelist removal is run on the
  function object \<open>query_username\<close> (the lookup is never called), so the console client
  is told to remove \<open><function query_username at 0x...>\<close>, not \<open>Steve\<close>. When
  the client still prints the marker, the reply names the function object; when it does
  not, \<open>ServerConnectionError\<close> leaves the handler and nothing is replied.
\<close>

theorem unbind_passes_function_to_whitelist:
  "mainHander (example_config []) (example_env marker_removed)
     (example_event (asc ''/unbind'') 1001)
     [\<lparr>qq = asc ''1001'', mc = Some (asc ''Steve''), is_admin = False, ban = False\<rparr>]
   = ([],
      [ConsoleClient (asc ''!!awr remove <function query_username at 0x7f3a5c0d1e50>''
                      @ [10] @ asc ''/quit'' @ [10]),
       PostGroup (PyInt 5)
         (msg_unbound 1001 (asc ''<function query_username at 0x7f3a5c0d1e50>''))],
      Inr (asc ''success''))
   \<and> mainHander (example_config []) (example_env [])
     (example_event (asc ''/unbind'') 1001)
     [\<lparr>qq = asc ''1001'', mc = Some (asc ''Steve''), is_admin = False, ban = False\<rparr>]
   = ([],
      [ConsoleClient (asc ''!!awr remove <function query_username at 0x7f3a5c0d1e50>''
                      @ [10] @ asc ''/quit'' @ [10])],
      Inl (Exn ServerConnectionError msg_remove_failed))"
  by (simp add: ex_defs handler_defs)

subsection \<open>C2: a ban and later binds\<close>

text \<open>
  Claim C2, as amended. While some row of the store holds the user name with its ban
  flag set, a two-token \<open>/bind <name>\<close> request for that name, from any sender, leaves
  the store as it is and launches no console client: it ends in the reply that the
  sender is banned, in the reply that the name is banned, or (sender id \<open>0\<close> or empty
  name) in the \<open>ValueError\<close> of \<open>query_ban\<close>.
\<close>

theorem bind_rejected_while_name_banned:
  assumes "startswith (raw_message ev) (asc ''/bind'')"
    and "split_sp (raw_message ev) = [c0, nm]"
    and "list_ex (\<lambda>r. mc r = Some nm \<and> ban r) t"
  shows "(mainHander cfg e ev t = (t, [], Inl (Exn ValueError msg_need_key_query))
          \<or> mainHander cfg e ev t
              = (t, send_msg ev (msg_qq_banned (user_id ev)), Inr (asc ''success''))
          \<or> mainHander cfg e ev t
              = (t, send_msg ev (msg_mc_banned (user_id ev)), Inr (asc ''success'')))
         \<and> (user_id ev \<noteq> 0 \<and> nm \<noteq> [] \<longrightarrow>
              snd (snd (mainHander cfg e ev t)) = Inr (asc ''success''))"
proof (cases "user_id ev = 0")
  case True
  then have "bind_branch e ev t = (t, [], Inl (Exn ValueError msg_need_key_query))"
    using assms(2) by (simp add: bind_branch_def query_ban_by_id_zero)
  then show ?thesis using True mainHander_bind_raise [OF assms(1)] by simp
next
  case False
  note id = query_ban_by_id [OF False, of t]
  show ?thesis
  proof (cases "list_ex (\<lambda>r. qq r = str_int (user_id ev) \<and> ban r) t")
    case True
    then have "bind_branch e ev t = (t, [], Inr (msg_qq_banned (user_id ev)))"
      using assms(2) id by (simp add: bind_branch_def)
    then show ?thesis using mainHander_bind_reply [OF assms(1)] by simp
  next
    case nb: False
    show ?thesis
    proof (cases "nm = []")
      case True
      then have "bind_branch e ev t = (t, [], Inl (Exn ValueError msg_need_key_query))"
        using assms(2) id nb by (simp add: bind_branch_def query_ban_by_name_empty)
      then show ?thesis using True mainHander_bind_raise [OF assms(1)] by simp
    next
      case False
      then have "bind_branch e ev t = (t, [], Inr (msg_mc_banned (user_id ev)))"
        using assms(2,3) id nb by (simp add: bind_branch_def query_ban_by_name)
      then show ?thesis using mainHander_bind_reply [OF assms(1)] by simp
    qed
  qed
qed

text \<open>
  The theorem at a concrete request: \<open>Steve\<close> is banned in the row of \<open>1001\<close>, and
  \<open>2002\<close> asks for it.
\<close>

theorem bind_rejected_while_name_banned_witness:
  "mainHander (example_config []) (example_env marker_added)
     (example_event (asc ''/bind Steve'') 2002)
     [\<lparr>qq = asc ''1001'', mc = Some (asc ''Steve''), is_admin = False, ban = True\<rparr>]
   = ([\<lparr>qq = asc ''1001'', mc = Some (asc ''Steve''), is_admin = False, ban = True\<rparr>],
      [PostGroup (PyInt 5) (msg_mc_banned 2002)], Inr (asc ''success''))"
  using bind_rejected_while_name_banned
    [of "example_event (asc ''/bind Steve'') 2002" "asc ''/bind''" "asc ''Steve''"
        "[\<lparr>qq = asc ''1001'', mc = Some (asc ''Steve''), is_admin = False, ban = True\<rparr>]"
        "example_config []" "example_env marker_added"]
  by (simp add: ex_defs handler_defs)

text \<open>
  Claim C2 as stated fails: the ban flag lives in the row of the identity that holds the
  name, and that row is deleted by its holder's \<open>/unbind\<close>. After \<open>1001\<close> binds
  \<open>Steve\<close> and the administrator bans \<open>Steve\<close>, the flag is set; after \<open>1001\<close>
  unbinds, \<open>2002\<close> binds \<open>Steve\<close>.
\<close>

theorem ban_lost_after_unbind_counterexample:
  "run (example_config [])
     [(example_env marker_added, example_event (asc ''/bind Steve'') 1001),
      (example_env marker_removed, example_event (asc ''/admin ban Steve'') 1)]
     (init_database [1] [])
   = [\<lparr>qq = asc ''1'', mc = None, is_admin = True, ban = False\<rparr>,
      \<lparr>qq = asc ''1001'', mc = Some (asc ''Steve''), is_admin = False, ban = True\<rparr>]
   \<and> run (example_config [])
     [(example_env marker_added, example_event (asc ''/bind Steve'') 1001),
      (example_env marker_removed, example_event (asc ''/admin ban Steve'') 1),
      (example_env [], example_event (asc ''/unbind'') 1001),
      (example_env marker_added, example_event (asc ''/bind Steve'') 2002)]
     (init_database [1] [])
   = [\<lparr>qq = asc ''1'', mc = None, is_admin = True, ban = False\<rparr>,
      \<lparr>qq = asc ''2002'', mc = Some (asc ''Steve''), is_admin = False, ban = False\<rparr>]"
  by (simp add: ex_defs handler_defs)

subsection \<open>C3: the HTTP response\<close>

text \<open>
  Claim C3 (the code departs from it). For \<open>/admin ban Steve\<close> from a configured
  administrator the handler never returns \<open>success\<close>, whatever the console client
  prints and whatever the store holds: without the marker \<open>removeWhitelist\<close> raises
  \<open>ServerConnectionError\<close>, which nothing catches; with it the reply is built from
  \<open>commands[3]\<close> of a list of three tokens, which raises \<open>IndexError\<close>.
\<close>

theorem admin_ban_never_answers_success:
  "snd (snd (mainHander (example_config []) e (example_event (asc ''/admin ban Steve'') 1) t))
     = Inl (if contains (transcript e) marker_removed then index_error
            else Exn ServerConnectionError msg_remove_failed)"
  by (simp add: example_event_def example_config_def asc_def mainHander_def dispatch_def
        admin_branch_def removeWhitelist_def isascii_def)

subsection \<open>C4: a failing whitelist controller during bind\<close>

text \<open>
  Claim C4 (the code departs from it). \<open>/bind Steve\<close> passes every check and the console
  client's output lacks the marker: the binding is not stored, but the reply posted is the
  success message, not the connection-error message.
\<close>

theorem bind_whitelist_failure_replies_success:
  "mainHander (example_config []) (example_env (asc ''[MCC] Connection failed''))
     (example_event (asc ''/bind Steve'') 1001) []
   = ([],
      [ConsoleClient (asc ''!!awr add Steve'' @ [10] @ asc ''/quit'' @ [10]),
       PostGroup (PyInt 5) (msg_bind_done 1001 (asc ''Steve''))],
      Inr (asc ''success''))
   \<and> msg_bind_done 1001 (asc ''Steve'') \<noteq> msg_bind_connection_error 1001"
  by (simp add: ex_defs handler_defs msg_bind_done_def msg_bind_connection_error_def cq_at_def)

subsection \<open>C5: an administrator's own bind\<close>




subsection \<open>C6: the prober ends\<close>

text \<open>
  Claim C6, as amended. For every address and every behaviour of the round trips,
  \<open>getMinecraftServerInfo\<close> ends after at most five round trips (the bound of its loop):
  with the online result when the round trip answers, with the offline-with-error result
  when it fails with \<open>TimeoutError\<close> or \<open>socket.gaierror\<close>, and with the exception
  itself, raised to the caller, when it fails with any other exception.
\<close>

theorem prober_ends_within_loop_bound:
  "snd (getMinecraftServerInfo pr a) \<le> 5
   \<and> fst (getMinecraftServerInfo pr a)
       = (case pr a 0 of
            Answered s \<Rightarrow> Inr (info_online s)
          | Failed x \<Rightarrow> if caught x then Inr (info_error x) else Inl x)"
  by (simp add: prober_result split: attempt.splits)

text \<open>
  Claim C6 as stated fails: a round trip that fails with another exception (here the
  \<open>OSError\<close> of an unreachable network) gives no structured result.
\<close>

theorem prober_raises_counterexample:
  "getMinecraftServerInfo (probe (example_env [])) (asc ''10.0.0.3:25565'')
     = (Inl (Exn OSError (asc ''[Errno 101] Network is unreachable'')), 1)"
  by (simp add: prober_result example_env_def caught_def asc_def)

subsection \<open>C7: an unreachable server in the status report\<close>

text \<open>
  Claim C7, as amended. When the round trip to one configured server fails with
  \<open>TimeoutError\<close> or \<open>socket.gaierror\<close>, the prober returns a result with
  \<open>online = false\<close> and \<open>error = true\<close> that carries the exception; and when the
  probes of the other servers return, the status report is the header, the reports of the
  servers before it, the line of that server ending in the two characters for "unknown",
  the exception's message in full-width parentheses, and the reports of the servers after
  it.
\<close>

theorem status_report_keeps_other_servers:
  assumes "probe e (server_address s) 0 = Failed x"
    and "caught x"
    and "server cfg = pre @ s # post"
    and "list_all (\<lambda>sv. \<not> isl (server_report e sv)) (pre @ post)"
  shows "(\<exists>st. fst (getMinecraftServerInfo (probe e) (server_address s)) = Inr st
               \<and> online st = False \<and> error st = True \<and> msg st = PyExc x)
         \<and> statusHandler cfg e qid
             = Inr (msg_status_header qid
                    @ concat (map (\<lambda>sv. projr (server_report e sv)) pre)
                    @ ([10, 26381, 21153, 22120, 21517, 31216, 65306] @ srv_name s
                       @ asc ''            ''
                       @ [10, 24403, 21069, 29366, 24577, 65306, 26410, 30693, 65288]
                       @ exn_str x @ [65289])
                    @ concat (map (\<lambda>sv. projr (server_report e sv)) post))"
proof
  have res: "fst (getMinecraftServerInfo (probe e) (server_address s)) = Inr (info_error x)"
    using assms(1,2) by (simp add: prober_result)
  then show "\<exists>st. fst (getMinecraftServerInfo (probe e) (server_address s)) = Inr st
               \<and> online st = False \<and> error st = True \<and> msg st = PyExc x"
    by (simp add: info_error_def)
  have pre: "status_loop e pre (msg_status_header qid)
               = Inr (msg_status_header qid @ concat (map (\<lambda>sv. projr (server_report e sv)) pre))"
    using assms(4) by (simp add: status_loop_reports)
  have line: "singleMsg e (srv_name s) (info_error x)
                = [10, 26381, 21153, 22120, 21517, 31216, 65306] @ srv_name s
                  @ asc ''            ''
                  @ [10, 24403, 21069, 29366, 24577, 65306, 26410, 30693, 65288]
                  @ exn_str x @ [65289]"
    by (simp add: singleMsg_def msg_server_unknown_def info_error_def)
  have "status_loop e (pre @ s # post) (msg_status_header qid)
          = status_loop e (s # post)
              (msg_status_header qid @ concat (map (\<lambda>sv. projr (server_report e sv)) pre))"
    using pre by (rule status_loop_append)
  also have "\<dots> = status_loop e post
              (msg_status_header qid @ concat (map (\<lambda>sv. projr (server_report e sv)) pre)
               @ singleMsg e (srv_name s) (info_error x))"
    using res by simp
  also have "\<dots> = Inr (msg_status_header qid
                    @ concat (map (\<lambda>sv. projr (server_report e sv)) pre)
                    @ singleMsg e (srv_name s) (info_error x)
                    @ concat (map (\<lambda>sv. projr (server_report e sv)) post))"
    using assms(4) by (simp add: status_loop_reports)
  finally show "statusHandler cfg e qid
             = Inr (msg_status_header qid
                    @ concat (map (\<lambda>sv. projr (server_report e sv)) pre)
                    @ ([10, 26381, 21153, 22120, 21517, 31216, 65306] @ srv_name s
                       @ asc ''            ''
                       @ [10, 24403, 21069, 29366, 24577, 65306, 26410, 30693, 65288]
                       @ exn_str x @ [65289])
                    @ concat (map (\<lambda>sv. projr (server_report e sv)) post))"
    using assms(3) line by (simp add: statusHandler_def)
qed

text \<open>
  The theorem at a concrete configuration: three servers, the second of which times out.
\<close>

theorem status_report_keeps_other_servers_witness:
  "statusHandler
     (example_config [example_server (asc ''lobby'') (asc ''10.0.0.1''),
                      example_server (asc ''survival'') (asc ''10.0.0.2''),
                      example_server (asc ''creative'') (asc ''10.0.0.4'')])
     (example_env []) 1001
   = Inr (msg_status_header 1001
          @ msg_server_online (example_env []) (asc ''lobby'') (info_online example_reply)
          @ ([10, 26381, 21153, 22120, 21517, 31216, 65306] @ asc ''survival''
             @ asc ''            ''
             @ [10, 24403, 21069, 29366, 24577, 65306, 26410, 30693, 65288]
             @ asc ''timed out'' @ [65289])
          @ msg_server_online (example_env []) (asc ''creative'') (info_online example_reply))"
  using status_report_keeps_other_servers
    [of "example_env []" "example_server (asc ''survival'') (asc ''10.0.0.2'')"
        "Exn TimeoutError (asc ''timed out'')"
        "example_config [example_server (asc ''lobby'') (asc ''10.0.0.1''),
                      example_server (asc ''survival'') (asc ''10.0.0.2''),
                      example_server (asc ''creative'') (asc ''10.0.0.4'')]"
        "[example_server (asc ''lobby'') (asc ''10.0.0.1'')]"
        "[example_server (asc ''creative'') (asc ''10.0.0.4'')]" 1001]
  by (simp add: ex_defs server_address_def caught_def server_report_def prober_result
        singleMsg_def info_online_def)

text \<open>
  Claim C7 as stated fails: the probe of a server whose network is unreachable raises
  \<open>OSError\<close>, which the prober does not catch; \<open>statusHandler\<close> ends with that
  exception and reports no server, the reachable one included, and the reply to
  \<open>/status\<close> is the single error message.
\<close>

theorem status_report_aborts_counterexample:
  "fst (getMinecraftServerInfo (probe (example_env []))
          (server_address (example_server (asc ''survival'') (asc ''10.0.0.3''))))
     = Inl (Exn OSError (asc ''[Errno 101] Network is unreachable''))
   \<and> statusHandler
       (example_config [example_server (asc ''survival'') (asc ''10.0.0.3''),
                        example_server (asc ''lobby'') (asc ''10.0.0.1'')])
       (example_env []) 1001
     = Inl (Exn OSError (asc ''[Errno 101] Network is unreachable''))
   \<and> mainHander
       (example_config [example_server (asc ''survival'') (asc ''10.0.0.3''),
                        example_server (asc ''lobby'') (asc ''10.0.0.1'')])
       (example_env []) (example_event (asc ''/status'') 1001) []
     = ([],
        [PostGroup (PyInt 5)
           (msg_status_failed 1001 (Exn OSError (asc ''[Errno 101] Network is unreachable'')))],
        Inr (asc ''success''))"
  by (simp add: ex_defs server_address_def caught_def prober_result statusHandler_def
        mainHander_def dispatch_def send_msg_def)

subsection \<open>C8: looking up a user name\<close>

text \<open>
  Claim C8 (the code departs from it). \<open>query_username\<close> on an identity that has no
  row (the store holds a row of another identity only) raises \<open>TypeError\<close> instead of
  returning a not-found value. On an identity that has a row it returns the bound name.
\<close>

theorem query_username_without_row_raises:
  "query_username (PyInt 1001)
     [\<lparr>qq = asc ''1002'', mc = Some (asc ''Alex''), is_admin = False, ban = False\<rparr>]
     = Inl (Exn TypeError msg_not_subscriptable)
   \<and> query_username (PyInt 1002)
     [\<lparr>qq = asc ''1002'', mc = Some (asc ''Alex''), is_admin = False, ban = False\<rparr>]
     = Inr (PyStr (asc ''Alex''))"
  by (simp add: query_username_def str_int_def str_nat.simps asc_def)

subsection \<open>C9: bind with a wrong token count\<close>

text \<open>
  Claim C9 (the code departs from it). A \<open>/bind\<close> request with one token or with
  three: the store is unchanged and no console client is launched, but the reply posted
  is the raw message itself, not the usage message.
\<close>

theorem bind_wrong_token_count_echoes:
  "mainHander cfg e (example_event (asc ''/bind'') 1001) t
     = (t, [PostGroup (PyInt 5) (asc ''/bind'')], Inr (asc ''success''))
   \<and> mainHander cfg e (example_event (asc ''/bind Steve now'') 1001) t
     = (t, [PostGroup (PyInt 5) (asc ''/bind Steve now'')], Inr (asc ''success''))
   \<and> asc ''/bind'' \<noteq> msg_bind_usage 1001"
  by (simp add: example_event_def asc_def mainHander_def dispatch_def bind_branch_def
        send_msg_def msg_bind_usage_def cq_at_def)

subsection \<open>C10: initialization resets the administrators' rows\<close>

text \<open>
  Claim C10. After \<open>init_database\<close> has run on an administrator list, every identity of
  the list has exactly one row, and that row is \<open>(qq = id, mc = NULL, is_admin = true, ban =
  false)\<close>, whatever the table held before: a bound user name or a ban stored for that
  identity is erased.
\<close>

theorem init_database_resets_admin_rows:
  "\<forall>a \<in> set admin_list.
     filter (\<lambda>r. qq r = str_int a) (init_database admin_list t)
       = [\<lparr>qq = str_int a, mc = None, is_admin = True, ban = False\<rparr>]"
  by (simp add: init_database_admin_row)

text \<open>
  The theorem at a concrete table: \<open>1001\<close> was bound to \<open>Steve\<close> and banned.
\<close>

theorem init_database_resets_admin_rows_witness:
  "filter (\<lambda>r. qq r = str_int 1001)
     (init_database [1001, 1002]
        [\<lparr>qq = str_int 1001, mc = Some (asc ''Steve''), is_admin = False, ban = True\<rparr>])
     = [\<lparr>qq = str_int 1001, mc = None, is_admin = True, ban = False\<rparr>]"
  using init_database_resets_admin_rows
    [of "[1001, 1002]"
        "[\<lparr>qq = str_int 1001, mc = Some (asc ''Steve''), is_admin = False, ban = True\<rparr>]"]
  by simp

end
